theory Spec2Isabelle
  imports Complex_Main "HOL-Library.Extended_Nat"
begin

section \<open>Values shared by the modules\<close>

text \<open>
  Python floats are modelled as reals (no NaN, no infinity, no rounding); the only float
  arithmetic of the repository is the floor division of \<open>schema.py\<close>, commented there.

  A \<open>datetime\<close> is its wall-clock reading counted in microseconds from midnight of
  day one, with the optional zone it carries; \<open>hour\<close> and \<open>minute\<close> are the attributes of
  the same names.
\<close>

record datetime =
  wall :: int
  tzinfo :: "int option"

definition hour :: "datetime \<Rightarrow> int" where
  "hour d = (wall d div 3600000000) mod 24"

definition minute :: "datetime \<Rightarrow> int" where
  "minute d = (wall d div 60000000) mod 60"

text \<open>The exceptions that the modelled code paths can raise.\<close>

datatype error =
    ClientError
  | KeyError string
  | ValidationError
  | ValueError
  | IndexError
  | TypeError
  | SQLAlchemyError
  | UnmodelledOrderBy string

section \<open>schema.py\<close>

subsection \<open>WeatherMinutelySchemaIn and WeatherHourlySchemaIn: the serializers\<close>

text \<open>
  \<open>serialize_time\<close>: \<open>[datetime.fromisoformat(i) for i in time]\<close>. The parser belongs to
  the standard library and is a parameter; \<open>None\<close> is the string it rejects (ValueError).
\<close>

fun serialize_time :: "(string \<Rightarrow> datetime option) \<Rightarrow> string list \<Rightarrow> error + datetime list" where
  "serialize_time fromisoformat [] = Inr []"
| "serialize_time fromisoformat (i # time) =
     (case fromisoformat i of
        None \<Rightarrow> Inl ValueError
      | Some d \<Rightarrow>
          (case serialize_time fromisoformat time of
             Inl e \<Rightarrow> Inl e
           | Inr ds \<Rightarrow> Inr (d # ds)))"

text \<open>
  \<open>serialize_weather_code\<close>: \<open>[WEATHER_CODE_MAP.get(i) for i in codes]\<close>. The table lives
  in \<open>constants.py\<close>, which is not part of the sources at hand, so it is a parameter;
  \<open>dict.get\<close> without a default gives \<open>None\<close> for a missing key.
\<close>

definition serialize_weather_code :: "(int \<rightharpoonup> string) \<Rightarrow> int list \<Rightarrow> string option list" where
  "serialize_weather_code WEATHER_CODE_MAP codes = map (\<lambda>i. WEATHER_CODE_MAP i) codes"

text \<open>
  The four labels of \<open>serialize_wind_direction\<close> are Russian words (north, east, south,
  west); each is given here by the bytes of its UTF-8 encoding.
\<close>

definition Sever :: string where
  "Sever = [CHR 0xD0, CHR 0xA1, CHR 0xD0, CHR 0xB5, CHR 0xD0, CHR 0xB2, CHR 0xD0, CHR 0xB5,
            CHR 0xD1, CHR 0x80]"

definition Vostok :: string where
  "Vostok = [CHR 0xD0, CHR 0x92, CHR 0xD0, CHR 0xBE, CHR 0xD1, CHR 0x81, CHR 0xD1, CHR 0x82,
             CHR 0xD0, CHR 0xBE, CHR 0xD0, CHR 0xBA]"

definition Yug :: string where
  "Yug = [CHR 0xD0, CHR 0xAE, CHR 0xD0, CHR 0xB3]"

definition Zapad :: string where
  "Zapad = [CHR 0xD0, CHR 0x97, CHR 0xD0, CHR 0xB0, CHR 0xD0, CHR 0xBF, CHR 0xD0, CHR 0xB0,
            CHR 0xD0, CHR 0xB4]"

text \<open>
  \<open>serialize_wind_direction\<close>: the loop appends one label per direction that falls in one
  of the four branches, and nothing for a direction that falls in none.
\<close>

fun serialize_wind_direction :: "real list \<Rightarrow> string list" where
  "serialize_wind_direction [] = []"
| "serialize_wind_direction (direction # directions) =
     (if 315 < direction \<and> direction \<le> 360 \<or> 0 \<le> direction \<and> direction \<le> 45
        then Sever # serialize_wind_direction directions
      else if 45 < direction \<and> direction \<le> 135
        then Vostok # serialize_wind_direction directions
      else if 135 < direction \<and> direction \<le> 225
        then Yug # serialize_wind_direction directions
      else if 225 < direction \<and> direction \<le> 315
        then Zapad # serialize_wind_direction directions
      else serialize_wind_direction directions)"

text \<open>
  \<open>serialize_surface_pressure\<close>: \<open>pressure // 1.333\<close> for each pressure. The divisor is the
  binary64 value of the literal \<open>1.333\<close>, which is
  \<open>6003298303284871 / 2 ^ 52\<close>, a little below the decimal 1.333. Float floor division
  gives the floor of the exact quotient, as a float.
\<close>

definition divisor_1_333 :: real where
  "divisor_1_333 = 6003298303284871 / 4503599627370496"

definition floordiv :: "real \<Rightarrow> real \<Rightarrow> real" where
  "floordiv x y = of_int \<lfloor>x / y\<rfloor>"

definition serialize_surface_pressure :: "real list \<Rightarrow> real list" where
  "serialize_surface_pressure pressures = map (\<lambda>pressure. floordiv pressure divisor_1_333) pressures"

subsection \<open>The dictionaries that the schemas read and dump\<close>

text \<open>
  Every dictionary with a fixed set of keys is a record. The field names are the keys,
  with a suffix for the stage, since several dictionaries share keys:
  \<open>_in\<close> for the keyword arguments of a schema, \<open>_h\<close> and \<open>_m\<close> for the dumps (by alias) of
  the hourly and of the minutely schema, \<open>_r\<close> for what the two selections return,
  \<open>_c\<close> for the dump of the create schema, \<open>_out\<close> for the dump of the output schema.
\<close>

record WeatherHourlySchemaIn =
  time_in_h :: "string list"
  surface_pressure :: "real list"

record hourly_data =
  time_h :: "datetime list"
  pressure_h :: "real list"

record WeatherMinutelySchemaIn =
  time_in_m :: "string list"
  temperature_2m :: "real list"
  precipitation_in :: "int list"
  wind_speed_10m :: "real list"
  wind_direction_10m :: "real list"
  weather_code :: "int list"

record minutely_data =
  time_m :: "datetime list"
  temperature_m :: "real list"
  precipitation_m :: "int list"
  wind_speed_m :: "real list"
  wind_direction_m :: "string list"
  weather_m :: "string option list"

record hourly_result =
  pressure_hr :: real

record minutely_result =
  time_r :: datetime
  temperature_r :: real
  precipitation_r :: int
  wind_speed_r :: real
  wind_direction_r :: string
  weather_r :: "string option"

text \<open>\<open>create_data = minutely_data | hourly_data\<close>: the keys of both.\<close>

record create_data = minutely_result +
  pressure_r :: real

record WeatherRecordCreateSchema =
  temperature_c :: real
  wind_speed_c :: real
  wind_direction_c :: string
  precipitation_c :: real
  pressure_c :: real
  weather_c :: string

record WeatherRecordSchemaOut =
  temperature_out :: real
  wind_speed_out :: real
  wind_direction_out :: string
  precipitation_out :: real
  pressure_out :: real
  weather_out :: string
  created_at_out :: datetime

text \<open>
  \<open>serialize_created_at\<close>: \<open>created_at.replace(tzinfo=None) + timedelta(hours=3)\<close>.
\<close>

definition serialize_created_at :: "datetime \<Rightarrow> datetime" where
  "serialize_created_at created_at =
     (let created_at = created_at\<lparr>tzinfo := None\<rparr>
      in created_at\<lparr>wall := wall created_at + 3 * 3600000000\<rparr>)"

section \<open>models.py\<close>

text \<open>
  A row of the table \<open>weather_record\<close>, column by column in the order of the class: the
  primary key \<open>id\<close> (field \<open>rec_id\<close>), the six mapped columns with their declared types
  (\<open>temperature\<close> and \<open>precipitation\<close> are \<open>Mapped[int]\<close>, integer columns; \<open>wind_speed\<close> and
  \<open>pressure\<close> are \<open>Mapped[float]\<close>; \<open>wind_direction\<close> and \<open>weather\<close> are \<open>Mapped[str]\<close>) and
  \<open>created_at\<close>, a nullable column whose server default is \<open>now()\<close>.
\<close>

record WeatherRecord =
  rec_id :: int
  temperature :: int
  wind_speed :: real
  wind_direction :: string
  precipitation :: int
  weather :: string
  pressure :: real
  created_at :: "datetime option"

section \<open>services.py\<close>

subsection \<open>ValidationService\<close>

text \<open>
  \<open>pydantic_class(**kwargs, strict=True).model_dump(by_alias=True)\<close>, once per schema.
  The keyword arguments come from decoded JSON: \<open>Rejected\<close> stands for any value that
  the constructor of the schema refuses (a field missing or of the wrong shape), \<open>Accepted\<close>
  carries the fields as the schema types them. The extra keyword \<open>strict\<close> is an
  unknown field, which the schemas ignore.
\<close>

datatype 'a kwargs = Rejected | Accepted 'a

definition weather_hourly_validation_service ::
  "(string \<Rightarrow> datetime option) \<Rightarrow> WeatherHourlySchemaIn kwargs \<Rightarrow> error + hourly_data" where
  "weather_hourly_validation_service fromisoformat kw =
     (case kw of
        Rejected \<Rightarrow> Inl ValidationError
      | Accepted m \<Rightarrow>
          (case serialize_time fromisoformat (time_in_h m) of
             Inl e \<Rightarrow> Inl e
           | Inr ts \<Rightarrow>
               Inr \<lparr>time_h = ts,
                    pressure_h = serialize_surface_pressure (surface_pressure m)\<rparr>))"

definition weather_minutely_validation_service ::
  "(string \<Rightarrow> datetime option) \<Rightarrow> (int \<rightharpoonup> string) \<Rightarrow> WeatherMinutelySchemaIn kwargs
     \<Rightarrow> error + minutely_data" where
  "weather_minutely_validation_service fromisoformat WEATHER_CODE_MAP kw =
     (case kw of
        Rejected \<Rightarrow> Inl ValidationError
      | Accepted m \<Rightarrow>
          (case serialize_time fromisoformat (time_in_m m) of
             Inl e \<Rightarrow> Inl e
           | Inr ts \<Rightarrow>
               Inr \<lparr>time_m = ts,
                    temperature_m = temperature_2m m,
                    precipitation_m = precipitation_in m,
                    wind_speed_m = wind_speed_10m m,
                    wind_direction_m = serialize_wind_direction (wind_direction_10m m),
                    weather_m = serialize_weather_code WEATHER_CODE_MAP (weather_code m)\<rparr>))"

text \<open>
  \<open>WeatherRecordCreateSchema(**create_data, strict=True)\<close>: the key \<open>time\<close> is ignored, the
  integer \<open>precipitation\<close> becomes a float, and \<open>weather\<close> must be a string, so \<open>None\<close> is
  refused.
\<close>

definition weather_record_create_validation_service ::
  "create_data \<Rightarrow> error + WeatherRecordCreateSchema" where
  "weather_record_create_validation_service kw =
     (case weather_r kw of
        None \<Rightarrow> Inl ValidationError
      | Some w \<Rightarrow>
          Inr \<lparr>temperature_c = temperature_r kw,
               wind_speed_c = wind_speed_r kw,
               wind_direction_c = wind_direction_r kw,
               precipitation_c = of_int (precipitation_r kw),
               pressure_c = pressure_r kw,
               weather_c = w\<rparr>)"

text \<open>
  \<open>WeatherRecordSchemaOut(**i.to_dict(), strict=True)\<close>: \<open>id\<close> is ignored, \<open>created_at\<close>
  must be a datetime, and the integers of the two integer columns are taken as floats.
\<close>

definition weather_out_validation_service :: "WeatherRecord \<Rightarrow> error + WeatherRecordSchemaOut" where
  "weather_out_validation_service i =
     (case created_at i of
        None \<Rightarrow> Inl ValidationError
      | Some c \<Rightarrow>
          Inr \<lparr>temperature_out = of_int (temperature i),
               wind_speed_out = wind_speed i,
               wind_direction_out = wind_direction i,
               precipitation_out = of_int (precipitation i),
               pressure_out = pressure i,
               weather_out = weather i,
               created_at_out = serialize_created_at c\<rparr>)"

subsection \<open>DatabaseRepository\<close>

text \<open>
  The table is the list of its rows in the order of insertion. \<open>create\<close> builds a row of
  the keyword arguments and commits it. The validated temperature and precipitation are
  floats and their columns are integer columns: what such a column takes from a float
  (the integer it stores, or an error of the driver) is decided by the database behind
  \<open>settings.DB_URL\<close>, which is not in the repository, so it is the parameter
  \<open>integer_column\<close>. The database gives the row an identity above every identity in the
  table and, unless the commit fails, the server's time as \<open>created_at\<close>. The outcome of
  the commit comes from outside: an error, or the server's time.
\<close>

definition next_id :: "WeatherRecord list \<Rightarrow> int" where
  "next_id table = fold max (map rec_id table) 0 + 1"

definition create ::
  "(real \<Rightarrow> error + int) \<Rightarrow> WeatherRecord list \<Rightarrow> WeatherRecordCreateSchema \<Rightarrow> error + datetime
     \<Rightarrow> error + WeatherRecord list" where
  "create integer_column table kw commit =
     (case integer_column (temperature_c kw) of
        Inl e \<Rightarrow> Inl e
      | Inr stored_temperature \<Rightarrow>
     (case integer_column (precipitation_c kw) of
        Inl e \<Rightarrow> Inl e
      | Inr stored_precipitation \<Rightarrow>
     (case commit of
        Inl e \<Rightarrow> Inl e
      | Inr now \<Rightarrow>
          Inr (table @
            [\<lparr>rec_id = next_id table,
              temperature = stored_temperature,
              wind_speed = wind_speed_c kw,
              wind_direction = wind_direction_c kw,
              precipitation = stored_precipitation,
              weather = weather_c kw,
              pressure = pressure_c kw,
              created_at = Some now\<rparr>]))))"

text \<open>
  \<open>get_all\<close>: \<open>select(table).order_by(text(order_by if order_by else "id")).limit(limit)\<close>.
  The clause is raw SQL; the two clauses that occur are interpreted, \<open>id\<close> (ascending) and
  \<open>id desc\<close>, and any other one is left out of the model as \<open>UnmodelledOrderBy\<close>.
  \<open>limit(None)\<close> is no limit.
\<close>

definition limit_rows :: "nat option \<Rightarrow> 'a list \<Rightarrow> 'a list" where
  "limit_rows limit rows = (case limit of None \<Rightarrow> rows | Some n \<Rightarrow> take n rows)"

definition get_all ::
  "WeatherRecord list \<Rightarrow> string option \<Rightarrow> nat option \<Rightarrow> error + WeatherRecord list" where
  "get_all table order_by limit =
     (let clause = (case order_by of None \<Rightarrow> ''id'' | Some s \<Rightarrow> if s = [] then ''id'' else s)
      in if clause = ''id'' then Inr (limit_rows limit (sort_key rec_id table))
         else if clause = ''id desc'' then Inr (limit_rows limit (rev (sort_key rec_id table)))
         else Inl (UnmodelledOrderBy clause))"

subsection \<open>CreateRecordService and GetAllRecordService\<close>

definition weather_record_create_service ::
  "(real \<Rightarrow> error + int) \<Rightarrow> WeatherRecord list \<Rightarrow> create_data \<Rightarrow> error + datetime
     \<Rightarrow> error + WeatherRecord list" where
  "weather_record_create_service integer_column table kw commit =
     (case weather_record_create_validation_service kw of
        Inl e \<Rightarrow> Inl e
      | Inr validated_data \<Rightarrow> create integer_column table validated_data commit)"

fun validate_rows :: "WeatherRecord list \<Rightarrow> error + WeatherRecordSchemaOut list" where
  "validate_rows [] = Inr []"
| "validate_rows (i # data) =
     (case weather_out_validation_service i of
        Inl e \<Rightarrow> Inl e
      | Inr d \<Rightarrow>
          (case validate_rows data of
             Inl e \<Rightarrow> Inl e
           | Inr ds \<Rightarrow> Inr (d # ds)))"

definition weather_record_get_all_service ::
  "WeatherRecord list \<Rightarrow> string option \<Rightarrow> nat option \<Rightarrow> error + WeatherRecordSchemaOut list" where
  "weather_record_get_all_service table order_by limit =
     (case get_all table order_by limit of
        Inl e \<Rightarrow> Inl e
      | Inr data \<Rightarrow> validate_rows data)"

subsection \<open>DownloadCreateWeatherRecordService\<close>

text \<open>
  \<open>_get_current_hour_data\<close>: the loop over \<open>zip(data["time"], data["pressure"])\<close> reads the
  clock at every sample it tests; \<open>now k\<close> is the reading at the test number \<open>k\<close>, from 0.
  Falling off the end of the loop returns \<open>None\<close>.
\<close>

fun hour_scan :: "(nat \<Rightarrow> datetime) \<Rightarrow> nat \<Rightarrow> (datetime \<times> real) list \<Rightarrow> hourly_result option" where
  "hour_scan now k [] = None"
| "hour_scan now k ((time, p) # rest) =
     (if hour time = hour (now k) then Some \<lparr>pressure_hr = p\<rparr>
      else hour_scan now (Suc k) rest)"

definition get_current_hour_data :: "(nat \<Rightarrow> datetime) \<Rightarrow> hourly_data \<Rightarrow> hourly_result option" where
  "get_current_hour_data now data = hour_scan now 0 (zip (time_h data) (pressure_h data))"

text \<open>
  \<open>_get_current_minute_data\<close>: \<open>index_min_tuple\<close> starts as \<open>(0, float("inf"))\<close> and is
  replaced when a strictly smaller distance is met; the clock is read once per sample
  (\<open>now index\<close> is the reading at the sample number \<open>index\<close>).
  Then every list of the dictionary is read at the index found, which raises IndexError
  on a list that is too short.
\<close>

definition delta_minutes :: "datetime \<Rightarrow> datetime \<Rightarrow> nat" where
  "delta_minutes time now = nat \<bar>minute time - minute now\<bar>"

fun minute_scan :: "(nat \<Rightarrow> datetime) \<Rightarrow> nat \<Rightarrow> datetime list \<Rightarrow> nat \<times> enat \<Rightarrow> nat \<times> enat" where
  "minute_scan now index [] index_min_tuple = index_min_tuple"
| "minute_scan now index (time # rest) index_min_tuple =
     minute_scan now (Suc index) rest
       (if enat (delta_minutes time (now index)) < snd index_min_tuple
        then (index, enat (delta_minutes time (now index)))
        else index_min_tuple)"

definition get_current_minute_data :: "(nat \<Rightarrow> datetime) \<Rightarrow> minutely_data \<Rightarrow> error + minutely_result" where
  "get_current_minute_data now data =
     (let current_time_index = fst (minute_scan now 0 (time_m data) (0, \<infinity>))
      in if current_time_index < length (time_m data)
            \<and> current_time_index < length (temperature_m data)
            \<and> current_time_index < length (precipitation_m data)
            \<and> current_time_index < length (wind_speed_m data)
            \<and> current_time_index < length (wind_direction_m data)
            \<and> current_time_index < length (weather_m data)
         then Inr \<lparr>time_r = time_m data ! current_time_index,
                   temperature_r = temperature_m data ! current_time_index,
                   precipitation_r = precipitation_m data ! current_time_index,
                   wind_speed_r = wind_speed_m data ! current_time_index,
                   wind_direction_r = wind_direction_m data ! current_time_index,
                   weather_r = weather_m data ! current_time_index\<rparr>
         else Inl IndexError)"

text \<open>
  \<open>minutely_data | hourly_data\<close>: the union of the two dictionaries; with \<open>None\<close> on the
  right the operator raises TypeError.
\<close>

definition merge :: "minutely_result \<Rightarrow> hourly_result option \<Rightarrow> error + create_data" where
  "merge minutely_sample hourly_sample =
     (case hourly_sample of
        None \<Rightarrow> Inl TypeError
      | Some h \<Rightarrow>
          Inr \<lparr>time_r = time_r minutely_sample,
               temperature_r = temperature_r minutely_sample,
               precipitation_r = precipitation_r minutely_sample,
               wind_speed_r = wind_speed_r minutely_sample,
               wind_direction_r = wind_direction_r minutely_sample,
               weather_r = weather_r minutely_sample,
               pressure_r = pressure_hr h\<rparr>)"

text \<open>
  What one pass of the loop body meets outside the program: the outcome of the request
  (an error, or the decoded response with its two keys, each possibly missing), the
  readings of the clock during the two selections, what the integer columns of the
  database take from a float, and the outcome of the commit.
\<close>

record response =
  hourly :: "WeatherHourlySchemaIn kwargs option"
  minutely_15 :: "WeatherMinutelySchemaIn kwargs option"

record poll_input =
  fetched :: "error + response"
  hour_now :: "nat \<Rightarrow> datetime"
  minute_now :: "nat \<Rightarrow> datetime"
  column_outcome :: "real \<Rightarrow> error + int"
  commit_outcome :: "error + datetime"

text \<open>
  The body of \<open>while True\<close> up to the call of the create service, in the order of the
  source: a raise at any line leaves the body. The result is the table after the body.
\<close>

definition iteration ::
  "(string \<Rightarrow> datetime option) \<Rightarrow> (int \<rightharpoonup> string) \<Rightarrow> WeatherRecord list \<Rightarrow> poll_input
     \<Rightarrow> error + WeatherRecord list" where
  "iteration fromisoformat WEATHER_CODE_MAP table inp =
     (case fetched inp of
        Inl e \<Rightarrow> Inl e
      | Inr response \<Rightarrow>
     (case hourly response of
        None \<Rightarrow> Inl (KeyError ''hourly'')
      | Some hourly_kw \<Rightarrow>
     (case weather_hourly_validation_service fromisoformat hourly_kw of
        Inl e \<Rightarrow> Inl e
      | Inr hourly_data \<Rightarrow>
     (let hourly_data = get_current_hour_data (hour_now inp) hourly_data in
     (case minutely_15 response of
        None \<Rightarrow> Inl (KeyError ''minutely_15'')
      | Some minutely_kw \<Rightarrow>
     (case weather_minutely_validation_service fromisoformat WEATHER_CODE_MAP minutely_kw of
        Inl e \<Rightarrow> Inl e
      | Inr minutely_data \<Rightarrow>
     (case get_current_minute_data (minute_now inp) minutely_data of
        Inl e \<Rightarrow> Inl e
      | Inr minutely_data \<Rightarrow>
     (case merge minutely_data hourly_data of
        Inl e \<Rightarrow> Inl e
      | Inr create_data \<Rightarrow>
          weather_record_create_service (column_outcome inp) table create_data
            (commit_outcome inp)))))))))"

text \<open>
  \<open>__call__\<close>: \<open>while True\<close> around the body, with \<open>asyncio.sleep\<close> as its last line and no
  \<open>try\<close>. The loop is run on the inputs of its first passes: it ends \<open>Raised\<close> at the pass
  that raises, and is still \<open>Running\<close> when the inputs given are used up. The result holds
  the table, the number of sleeps done and the state of the task.
\<close>

datatype task = Running | Raised error

fun polling_loop ::
  "(string \<Rightarrow> datetime option) \<Rightarrow> (int \<rightharpoonup> string) \<Rightarrow> WeatherRecord list \<Rightarrow> poll_input list
     \<Rightarrow> WeatherRecord list \<times> nat \<times> task" where
  "polling_loop fromisoformat WEATHER_CODE_MAP table [] = (table, 0, Running)"
| "polling_loop fromisoformat WEATHER_CODE_MAP table (inp # inps) =
     (case iteration fromisoformat WEATHER_CODE_MAP table inp of
        Inl e \<Rightarrow> (table, 0, Raised e)
      | Inr table' \<Rightarrow>
          (case polling_loop fromisoformat WEATHER_CODE_MAP table' inps of
             (t, sleeps, state) \<Rightarrow> (t, Suc sleeps, state)))"

subsection \<open>ExportWeatherRecordsToExcel\<close>

text \<open>
  The tokens \<open>"da"\<close> and \<open>"d"\<close> of the source are Cyrillic, given by their UTF-8 bytes.
  \<open>str.strip\<close> and \<open>str.lower\<close> belong to the standard library and are parameters.
\<close>

definition da :: string where
  "da = [CHR 0xD0, CHR 0xB4, CHR 0xD0, CHR 0xB0]"

definition d_cyr :: string where
  "d_cyr = [CHR 0xD0, CHR 0xB4]"

definition affirmative :: "(string \<Rightarrow> string) \<Rightarrow> (string \<Rightarrow> string) \<Rightarrow> string \<Rightarrow> bool" where
  "affirmative strip lower input_data \<longleftrightarrow> lower (strip input_data) \<in> set [da, ''yes'', ''y'', d_cyr]"

text \<open>
  What one pass of the export loop meets: the line read and the table as the session
  of that pass sees it, or the error of the read. A pass whose line is affirmative calls
  the service and hands the data frame to the executor; the events record the call made
  and the rows handed over.
\<close>

record export_input =
  line :: string
  seen :: "error + WeatherRecord list"

datatype export_event =
    Requested "string option" "nat option"
  | To_excel "WeatherRecordSchemaOut list"

fun export_loop ::
  "(string \<Rightarrow> string) \<Rightarrow> (string \<Rightarrow> string) \<Rightarrow> export_input list \<Rightarrow> export_event list \<times> task" where
  "export_loop strip lower [] = ([], Running)"
| "export_loop strip lower (inp # inps) =
     (if \<not> affirmative strip lower (line inp) then export_loop strip lower inps
      else
        (case seen inp of
           Inl e \<Rightarrow> ([Requested (Some ''id desc'') (Some 10)], Raised e)
         | Inr table \<Rightarrow>
             (case weather_record_get_all_service table (Some ''id desc'') (Some 10) of
                Inl e \<Rightarrow> ([Requested (Some ''id desc'') (Some 10)], Raised e)
              | Inr weather_records \<Rightarrow>
                  (case export_loop strip lower inps of
                     (events, state) \<Rightarrow>
                       (Requested (Some ''id desc'') (Some 10) # To_excel weather_records # events,
                        state)))))"

section \<open>Sample inputs\<close>

text \<open>
  Wall-clock readings of one morning (07:00, 08:00, 08:15, 08:30, 09:00) and a minutely
  series of two samples at the same distance from 08:15.
\<close>

definition t0700 :: datetime where "t0700 = \<lparr>wall = 25200000000, tzinfo = None\<rparr>"
definition t0800 :: datetime where "t0800 = \<lparr>wall = 28800000000, tzinfo = None\<rparr>"
definition t0815 :: datetime where "t0815 = \<lparr>wall = 29700000000, tzinfo = None\<rparr>"
definition t0830 :: datetime where "t0830 = \<lparr>wall = 30600000000, tzinfo = None\<rparr>"
definition t0900 :: datetime where "t0900 = \<lparr>wall = 32400000000, tzinfo = None\<rparr>"

definition quarters :: minutely_data where
  "quarters = \<lparr>time_m = [t0800, t0830], temperature_m = [5, 6], precipitation_m = [0, 1],
     wind_speed_m = [3, 4], wind_direction_m = [Sever, Yug],
     weather_m = [Some ''Clear sky'', None]\<rparr>"

text \<open>
  A second series, whose second sample is the one at 08:15.
\<close>

definition quarter_past :: minutely_data where
  "quarter_past = \<lparr>time_m = [t0800, t0815], temperature_m = [5, 6], precipitation_m = [0, 1],
     wind_speed_m = [3, 4], wind_direction_m = [Sever, Yug],
     weather_m = [Some ''Clear sky'', Some ''Rain'']\<rparr>"

text \<open>
  A database whose integer columns store the nearest integer of a float (a half goes up).
\<close>

definition rounding_column :: "real \<Rightarrow> error + int" where
  "rounding_column x = Inr (round x)"

text \<open>
  A selected minutely sample, its union with the hourly sample of pressure 759, and the
  row that the store makes of it in an empty table; the same sample with a temperature
  of 5.4; the sample without a weather label that the series 08:00, 08:30 gives at 08:30;
  then three rows with the identities 1, 2 and 3.
\<close>

definition sample_0815 :: minutely_result where
  "sample_0815 = \<lparr>time_r = t0815, temperature_r = 5, precipitation_r = 0, wind_speed_r = 3,
     wind_direction_r = Sever, weather_r = Some ''Clear sky''\<rparr>"

definition merged_0815 :: create_data where
  "merged_0815 = \<lparr>time_r = t0815, temperature_r = 5, precipitation_r = 0, wind_speed_r = 3,
     wind_direction_r = Sever, weather_r = Some ''Clear sky'', pressure_r = 759\<rparr>"

definition row_0815 :: WeatherRecord where
  "row_0815 = \<lparr>rec_id = 1, temperature = 5, wind_speed = 3, wind_direction = Sever,
     precipitation = 0, weather = ''Clear sky'', pressure = 759, created_at = Some t0830\<rparr>"





definition row1 :: WeatherRecord where
  "row1 = \<lparr>rec_id = 1, temperature = 5, wind_speed = 3, wind_direction = Sever,
     precipitation = 0, weather = ''Clear sky'', pressure = 759, created_at = Some t0800\<rparr>"

definition row2 :: WeatherRecord where
  "row2 = \<lparr>rec_id = 2, temperature = 6, wind_speed = 4, wind_direction = Yug,
     precipitation = 1, weather = ''Rain'', pressure = 760, created_at = Some t0815\<rparr>"

definition row3 :: WeatherRecord where
  "row3 = \<lparr>rec_id = 3, temperature = 7, wind_speed = 2, wind_direction = Zapad,
     precipitation = 0, weather = ''Fog'', pressure = 761, created_at = Some t0830\<rparr>"

text \<open>
  Inputs of whole passes of the polling loop: a parser that knows three timestamps, a
  lookup that holds the code 0, a clock that stays at 08:15 and one that stays at 08:30,
  a response whose hourly series holds 08:00 and one whose hourly series holds 07:00
  only, and three passes against the database above: one that succeeds, one whose
  request fails, one with no hourly sample for the hour.
\<close>

definition sample_iso :: "string \<Rightarrow> datetime option" where
  "sample_iso = map_of [(''2024-01-01T07:00'', t0700), (''2024-01-01T08:00'', t0800),
                 (''2024-01-01T08:15'', t0815)]"

definition sample_codes :: "int \<rightharpoonup> string" where
  "sample_codes = map_of [(0, ''Clear sky'')]"

definition clock_0815 :: "nat \<Rightarrow> datetime" where
  "clock_0815 k = t0815"


definition minutely_0815 :: WeatherMinutelySchemaIn where
  "minutely_0815 = \<lparr>time_in_m = [''2024-01-01T08:15''], temperature_2m = [5],
     precipitation_in = [0], wind_speed_10m = [3], wind_direction_10m = [10],
     weather_code = [0]\<rparr>"

definition hourly_0800 :: WeatherHourlySchemaIn where
  "hourly_0800 = \<lparr>time_in_h = [''2024-01-01T08:00''], surface_pressure = [1013]\<rparr>"

definition hourly_0700 :: WeatherHourlySchemaIn where
  "hourly_0700 = \<lparr>time_in_h = [''2024-01-01T07:00''], surface_pressure = [1013]\<rparr>"

definition response_0800 :: response where
  "response_0800 = \<lparr>hourly = Some (Accepted hourly_0800), minutely_15 = Some (Accepted minutely_0815)\<rparr>"

definition response_0700 :: response where
  "response_0700 = \<lparr>hourly = Some (Accepted hourly_0700), minutely_15 = Some (Accepted minutely_0815)\<rparr>"

definition good_poll :: poll_input where
  "good_poll = \<lparr>fetched = Inr response_0800, hour_now = clock_0815, minute_now = clock_0815,
     column_outcome = rounding_column, commit_outcome = Inr t0830\<rparr>"

definition failed_fetch :: poll_input where
  "failed_fetch = \<lparr>fetched = Inl ClientError, hour_now = clock_0815, minute_now = clock_0815,
     column_outcome = rounding_column, commit_outcome = Inr t0830\<rparr>"

definition no_hour_poll :: poll_input where
  "no_hour_poll = \<lparr>fetched = Inr response_0700, hour_now = clock_0815, minute_now = clock_0815,
     column_outcome = rounding_column, commit_outcome = Inr t0830\<rparr>"

text \<open>
  Inputs of the export loop: an affirmative and a negative line, read while the
  table holds the row above, and that row as the export shows it; then an affirmative
  line read while the table holds the three rows, and these rows as the export shows
  them.
\<close>

definition out_row_0815 :: WeatherRecordSchemaOut where
  "out_row_0815 = \<lparr>temperature_out = 5, wind_speed_out = 3, wind_direction_out = Sever,
     precipitation_out = 0, pressure_out = 759, weather_out = ''Clear sky'',
     created_at_out = \<lparr>wall = 41400000000, tzinfo = None\<rparr>\<rparr>"

definition yes_line :: export_input where
  "yes_line = \<lparr>line = ''y'', seen = Inr [row_0815]\<rparr>"

definition no_line :: export_input where
  "no_line = \<lparr>line = ''n'', seen = Inr [row_0815]\<rparr>"

definition yes_later :: export_input where
  "yes_later = \<lparr>line = ''yes'', seen = Inr [row1, row2, row3]\<rparr>"

definition out_rows_321 :: "WeatherRecordSchemaOut list" where
  "out_rows_321 =
     [\<lparr>temperature_out = 7, wind_speed_out = 2, wind_direction_out = Zapad,
       precipitation_out = 0, pressure_out = 761, weather_out = ''Fog'',
       created_at_out = \<lparr>wall = 41400000000, tzinfo = None\<rparr>\<rparr>,
      \<lparr>temperature_out = 6, wind_speed_out = 4, wind_direction_out = Yug,
       precipitation_out = 1, pressure_out = 760, weather_out = ''Rain'',
       created_at_out = \<lparr>wall = 40500000000, tzinfo = None\<rparr>\<rparr>,
      \<lparr>temperature_out = 5, wind_speed_out = 3, wind_direction_out = Sever,
       precipitation_out = 0, pressure_out = 759, weather_out = ''Clear sky'',
       created_at_out = \<lparr>wall = 39600000000, tzinfo = None\<rparr>\<rparr>]"

section \<open>Properties of the serializers\<close>

lemma labels_distinct:
  "Sever \<noteq> Vostok" "Sever \<noteq> Yug" "Sever \<noteq> Zapad"
  "Vostok \<noteq> Yug" "Vostok \<noteq> Zapad" "Yug \<noteq> Zapad"
  by (simp_all add: Sever_def Vostok_def Yug_def Zapad_def)

lemma serialize_wind_direction_length:
  "\<forall>d \<in> set ds. 0 \<le> d \<and> d \<le> 360 \<Longrightarrow> length (serialize_wind_direction ds) = length ds"
  by (induction ds) auto

text \<open>
  Claim C5. For every wind bearing \<open>b\<close> in \<open>[0, 360]\<close> the conversion produces exactly one
  of the four labels: north (\<open>Sever\<close>) exactly for \<open>b\<close> in \<open>(315, 360]\<close> or \<open>[0, 45]\<close>, east
  (\<open>Vostok\<close>) exactly for \<open>(45, 135]\<close>, south (\<open>Yug\<close>) exactly for \<open>(135, 225]\<close>, west
  (\<open>Zapad\<close>) exactly for \<open>(225, 315]\<close>; so the intervals leave no gap and overlap nowhere.
\<close>

theorem wind_direction_four_labels:
  assumes "0 \<le> b" "b \<le> 360"
  shows "(serialize_wind_direction [b] = [Sever] \<longleftrightarrow> 315 < b \<and> b \<le> 360 \<or> 0 \<le> b \<and> b \<le> 45)
       \<and> (serialize_wind_direction [b] = [Vostok] \<longleftrightarrow> 45 < b \<and> b \<le> 135)
       \<and> (serialize_wind_direction [b] = [Yug] \<longleftrightarrow> 135 < b \<and> b \<le> 225)
       \<and> (serialize_wind_direction [b] = [Zapad] \<longleftrightarrow> 225 < b \<and> b \<le> 315)
       \<and> (\<exists>!l. l \<in> {Sever, Vostok, Yug, Zapad} \<and> serialize_wind_direction [b] = [l])"
  using assms labels_distinct by auto

theorem wind_direction_four_labels_witness:
  "(0::real) \<le> 360 \<and> (360::real) \<le> 360
   \<and> serialize_wind_direction [360] = [Sever]
   \<and> serialize_wind_direction [0] = [Sever]
   \<and> serialize_wind_direction [45] = [Sever]
   \<and> serialize_wind_direction [315] = [Zapad]"
  using wind_direction_four_labels [of 360] wind_direction_four_labels [of 0]
    wind_direction_four_labels [of 45] wind_direction_four_labels [of 315]
  by simp

text \<open>
  Claim C6, as stated, gives 999 for the pressure 1333. The code gives 1000.
\<close>

theorem surface_pressure_1333_counterexample:
  "serialize_surface_pressure [1333] \<noteq> [999]"
  by (simp add: serialize_surface_pressure_def floordiv_def divisor_1_333_def floor_eq_iff)

text \<open>
  Claim C6, amended. The conversion of a pressure \<open>x\<close> is the floor of \<open>x / 1.333\<close>: the
  integer \<open>n\<close> with \<open>n * 1.333 \<le> x < (n + 1) * 1.333\<close>, so it truncates and does not round
  (1013 gives 759, though the quotient is above 759.9). In particular 1333 gives 1000,
  with the float divisor and with the decimal one alike.
\<close>

theorem surface_pressure_truncates:
  "serialize_surface_pressure [x] = [of_int \<lfloor>x / divisor_1_333\<rfloor>]
   \<and> of_int \<lfloor>x / divisor_1_333\<rfloor> * divisor_1_333 \<le> x
   \<and> x < (of_int \<lfloor>x / divisor_1_333\<rfloor> + 1) * divisor_1_333
   \<and> serialize_surface_pressure [1333] = [1000]
   \<and> serialize_surface_pressure [1013] = [759]
   \<and> floordiv 1333 1.333 = 1000"
proof -
  have pos: "0 < divisor_1_333" by (simp add: divisor_1_333_def)
  have below: "of_int \<lfloor>x / divisor_1_333\<rfloor> * divisor_1_333 \<le> x"
    using pos by (simp add: pos_le_divide_eq [symmetric])
  have above: "x < (of_int \<lfloor>x / divisor_1_333\<rfloor> + 1) * divisor_1_333"
    using pos by (simp add: pos_divide_less_eq [symmetric])
  have at_1333: "\<lfloor>1333 / divisor_1_333\<rfloor> = 1000"
    by (simp add: divisor_1_333_def floor_eq_iff)
  have at_1013: "\<lfloor>1013 / divisor_1_333\<rfloor> = 759"
    by (simp add: divisor_1_333_def floor_eq_iff)
  have decimal: "floordiv 1333 1.333 = 1000"
    by (simp add: floordiv_def)
  show ?thesis
    using below above at_1333 at_1013 decimal
    by (simp add: serialize_surface_pressure_def floordiv_def)
qed

text \<open>
  Claim C7, as stated, maps a code that the lookup does not hold to an "unknown" label.
  With a lookup that holds the code 0 only, the code 7 is mapped to \<open>None\<close>.
\<close>

theorem weather_code_unknown_counterexample:
  "serialize_weather_code (map_of [(0, ''Clear sky'')]) [0, 7] = [Some ''Clear sky'', None]"
  by (simp add: serialize_weather_code_def)

text \<open>
  Claim C7, amended. The conversion keeps one entry per code, in order: the label of the
  lookup for a code that the lookup holds, and \<open>None\<close> (no label) for any other code.
\<close>

theorem weather_code_lookup:
  "length (serialize_weather_code m codes) = length codes
   \<and> (\<forall>i<length codes.
        (\<forall>l. m (codes ! i) = Some l \<longrightarrow> serialize_weather_code m codes ! i = Some l)
      \<and> (codes ! i \<notin> dom m \<longrightarrow> serialize_weather_code m codes ! i = None))"
  by (auto simp: serialize_weather_code_def)

theorem weather_code_lookup_witness:
  "(1::nat) < length [0, 7::int]
   \<and> map_of [(0::int, ''Clear sky'')] 0 = Some ''Clear sky''
   \<and> 7 \<notin> dom (map_of [(0::int, ''Clear sky'')])
   \<and> serialize_weather_code (map_of [(0, ''Clear sky'')]) [0, 7] ! 0 = Some ''Clear sky''
   \<and> serialize_weather_code (map_of [(0, ''Clear sky'')]) [0, 7] ! 1 = None"
  using weather_code_lookup [of "map_of [(0, ''Clear sky'')]" "[0, 7]"]
  by (simp add: dom_def)

section \<open>Properties of the two selections\<close>

lemma hour_scan_first:
  "i < length zs \<Longrightarrow> hour (fst (zs ! i)) = hour (now (k + i))
   \<Longrightarrow> \<forall>j<i. hour (fst (zs ! j)) \<noteq> hour (now (k + j))
   \<Longrightarrow> hour_scan now k zs = Some \<lparr>pressure_hr = snd (zs ! i)\<rparr>"
proof (induction zs arbitrary: i k)
  case Nil
  then show ?case by simp
next
  case (Cons z zs)
  obtain t p where z: "z = (t, p)" by (cases z)
  note earlier = Cons.prems(3) [rule_format]
  show ?case
  proof (cases i)
    case 0
    with Cons.prems(2) z show ?thesis by simp
  next
    case (Suc i')
    have "hour (fst ((z # zs) ! 0)) \<noteq> hour (now (k + 0))"
      by (rule earlier) (simp add: Suc)
    then have head: "hour t \<noteq> hour (now k)"
      by (simp add: z)
    have "hour_scan now (Suc k) zs = Some \<lparr>pressure_hr = snd (zs ! i')\<rparr>"
    proof (rule Cons.IH)
      show "i' < length zs" using Cons.prems(1) Suc by simp
      show "hour (fst (zs ! i')) = hour (now (Suc k + i'))"
        using Cons.prems(2) Suc by simp
      show "\<forall>j<i'. hour (fst (zs ! j)) \<noteq> hour (now (Suc k + j))"
      proof (intro allI impI)
        fix j assume "j < i'"
        then have "Suc j < i" using Suc by simp
        then have "hour (fst ((z # zs) ! Suc j)) \<noteq> hour (now (k + Suc j))"
          by (rule earlier)
        then show "hour (fst (zs ! j)) \<noteq> hour (now (Suc k + j))" by simp
      qed
    qed
    with head show ?thesis by (simp add: z Suc)
  qed
qed

lemma hour_scan_none:
  "\<forall>j<length zs. hour (fst (zs ! j)) \<noteq> hour (now (k + j)) \<Longrightarrow> hour_scan now k zs = None"
proof (induction zs arbitrary: k)
  case Nil
  then show ?case by simp
next
  case (Cons z zs)
  obtain t p where z: "z = (t, p)" by (cases z)
  note all = Cons.prems [rule_format]
  have "hour (fst ((z # zs) ! 0)) \<noteq> hour (now (k + 0))"
    by (rule all) simp
  then have head: "hour t \<noteq> hour (now k)"
    by (simp add: z)
  have "\<forall>j<length zs. hour (fst (zs ! j)) \<noteq> hour (now (Suc k + j))"
  proof (intro allI impI)
    fix j assume "j < length zs"
    then have "Suc j < length (z # zs)" by simp
    then have "hour (fst ((z # zs) ! Suc j)) \<noteq> hour (now (k + Suc j))" by (rule all)
    then show "hour (fst (zs ! j)) \<noteq> hour (now (Suc k + j))" by simp
  qed
  then have "hour_scan now (Suc k) zs = None" by (rule Cons.IH)
  with head show ?case by (simp add: z)
qed

lemma first_index:
  fixes P :: "nat \<Rightarrow> bool"
  assumes "k < n" "P k"
  shows "\<exists>i<n. P i \<and> (\<forall>j<i. \<not> P j)"
proof -
  define i where "i = (LEAST i. P i)"
  have "P i" unfolding i_def using assms(2) by (rule LeastI)
  moreover have "i \<le> k" unfolding i_def using assms(2) by (rule Least_le)
  moreover have "\<not> P j" if "j < i" for j
    using that unfolding i_def by (rule not_less_Least)
  ultimately have "i < n \<and> P i \<and> (\<forall>j<i. \<not> P j)" using assms(1) by simp
  then show ?thesis by (rule exI)
qed

lemma hours: "hour t0815 = 8" "hour t0700 = 7" "hour t0800 = 8" "hour t0900 = 9" "hour t0830 = 8"
  by (simp_all add: hour_def t0815_def t0700_def t0800_def t0900_def t0830_def)


text \<open>
  Claim C3. For every normalized hourly series (the samples are the pairs of
  \<open>zip(time, pressure)\<close>) with at least one sample whose hour of day equals the hour of
  the clock, the hourly selection returns the first such sample in series order. The
  clock is read at each sample tested (\<open>now k\<close> at sample \<open>k\<close>); with a clock that stays in
  one hour this is the current hour of the claim.
\<close>

theorem hourly_selection_first_match:
  assumes "\<exists>k<length (zip (time_h data) (pressure_h data)). hour (time_h data ! k) = hour (now k)"
  shows "\<exists>i<length (zip (time_h data) (pressure_h data)).
           get_current_hour_data now data = Some \<lparr>pressure_hr = pressure_h data ! i\<rparr>
         \<and> hour (time_h data ! i) = hour (now i)
         \<and> (\<forall>j<i. hour (time_h data ! j) \<noteq> hour (now j))"
proof -
  define zs where "zs = zip (time_h data) (pressure_h data)"
  define P where "P = (\<lambda>i. hour (time_h data ! i) = hour (now i))"
  from assms obtain k where "k < length zs" "P k"
    unfolding zs_def P_def by blast
  then have "\<exists>i<length zs. P i \<and> (\<forall>j<i. \<not> P j)" by (rule first_index)
  then obtain i where i: "i < length zs" "P i" and before: "\<And>j. j < i \<Longrightarrow> \<not> P j"
    by blast
  have nth: "zs ! j = (time_h data ! j, pressure_h data ! j)" if "j < length zs" for j
    using that unfolding zs_def by simp
  have "hour_scan now 0 zs = Some \<lparr>pressure_hr = snd (zs ! i)\<rparr>"
  proof (rule hour_scan_first)
    show "i < length zs" by (rule i(1))
    show "hour (fst (zs ! i)) = hour (now (0 + i))"
      using i(2) by (simp add: nth [OF i(1)] P_def)
    show "\<forall>j<i. hour (fst (zs ! j)) \<noteq> hour (now (0 + j))"
    proof (intro allI impI)
      fix j assume j: "j < i"
      then have "j < length zs" using i(1) by simp
      then show "hour (fst (zs ! j)) \<noteq> hour (now (0 + j))"
        using before [OF j] by (simp add: nth P_def)
    qed
  qed
  then have "get_current_hour_data now data = Some \<lparr>pressure_hr = pressure_h data ! i\<rparr>"
    by (simp add: get_current_hour_data_def zs_def [symmetric] nth [OF i(1)])
  moreover have "hour (time_h data ! i) = hour (now i)" using i(2) by (simp add: P_def)
  moreover have "\<forall>j<i. hour (time_h data ! j) \<noteq> hour (now j)"
    using before by (simp add: P_def)
  ultimately show ?thesis using i(1) unfolding zs_def by blast
qed

theorem hourly_selection_first_match_witness:
  "(\<exists>k<length (zip [t0700, t0800, t0900, t0800] [759, 760, 761, 762::real]).
       hour ([t0700, t0800, t0900, t0800] ! k) = hour t0815)
   \<and> get_current_hour_data (\<lambda>k. t0815)
        \<lparr>time_h = [t0700, t0800, t0900, t0800], pressure_h = [759, 760, 761, 762]\<rparr>
      = Some \<lparr>pressure_hr = 760\<rparr>"
proof -
  have ex: "\<exists>k<length (zip (time_h \<lparr>time_h = [t0700, t0800, t0900, t0800], pressure_h = [759, 760, 761, 762]\<rparr>)
                            (pressure_h \<lparr>time_h = [t0700, t0800, t0900, t0800], pressure_h = [759, 760, 761, 762]\<rparr>)).
       hour (time_h \<lparr>time_h = [t0700, t0800, t0900, t0800], pressure_h = [759, 760, 761, 762]\<rparr> ! k)
         = hour ((\<lambda>k. t0815) k)"
    by (rule exI [of _ 1]) (simp add: hours)
  from hourly_selection_first_match [OF ex] obtain i where
    "get_current_hour_data (\<lambda>k. t0815)
        \<lparr>time_h = [t0700, t0800, t0900, t0800], pressure_h = [759, 760, 761, 762]\<rparr>
      = Some \<lparr>pressure_hr = [759, 760, 761, 762] ! i\<rparr>"
    "hour ([t0700, t0800, t0900, t0800] ! i) = hour t0815"
    "\<forall>j<i. hour ([t0700, t0800, t0900, t0800] ! j) \<noteq> hour t0815"
    "i < 4"
    by auto
  moreover from this have "i = 1"
    by (auto simp: hours less_Suc_eq numeral_eq_Suc nth_Cons split: nat.splits)
  ultimately show ?thesis using ex by simp
qed

lemma minute_scan_result:
  "minute_scan now k ts (i0, b0) = (i, b) \<Longrightarrow>
     (i = i0 \<and> b = b0 \<and> (\<forall>j<length ts. b0 \<le> enat (delta_minutes (ts ! j) (now (k + j)))))
   \<or> (\<exists>j<length ts. i = k + j \<and> b = enat (delta_minutes (ts ! j) (now (k + j))) \<and> b < b0
         \<and> (\<forall>j'<j. b < enat (delta_minutes (ts ! j') (now (k + j'))))
         \<and> (\<forall>j'<length ts. b \<le> enat (delta_minutes (ts ! j') (now (k + j')))))"
proof (induction ts arbitrary: k i0 b0)
  case Nil
  then show ?case by simp
next
  case (Cons t ts)
  define d where "d = enat (delta_minutes t (now k))"
  show ?case
  proof (cases "d < b0")
    case True
    with Cons.prems have "minute_scan now (Suc k) ts (k, d) = (i, b)"
      by (simp add: d_def)
    from Cons.IH [OF this] show ?thesis
    proof (elim disjE conjE exE)
      assume "i = k" "b = d" "\<forall>j<length ts. d \<le> enat (delta_minutes (ts ! j) (now (Suc k + j)))"
      then have "0 < length (t # ts) \<and> i = k + 0
          \<and> b = enat (delta_minutes ((t # ts) ! 0) (now (k + 0))) \<and> b < b0
          \<and> (\<forall>j'<0. b < enat (delta_minutes ((t # ts) ! j') (now (k + j'))))
          \<and> (\<forall>j'<length (t # ts). b \<le> enat (delta_minutes ((t # ts) ! j') (now (k + j'))))"
        using True by (simp add: d_def All_less_Suc2)
      then show ?thesis by (intro disjI2 exI [of _ 0]) blast
    next
      fix j
      assume j: "j < length ts" "i = Suc k + j"
        "b = enat (delta_minutes (ts ! j) (now (Suc k + j)))"
        and bd: "b < d"
        and rest: "\<forall>j'<j. b < enat (delta_minutes (ts ! j') (now (Suc k + j')))"
        "\<forall>j'<length ts. b \<le> enat (delta_minutes (ts ! j') (now (Suc k + j')))"
      from bd True have "b < b0" by (rule less_trans)
      moreover from bd have "b < enat (delta_minutes t (now k))" "b \<le> enat (delta_minutes t (now k))"
        by (simp_all add: d_def)
      ultimately have "Suc j < length (t # ts) \<and> i = k + Suc j
          \<and> b = enat (delta_minutes ((t # ts) ! Suc j) (now (k + Suc j))) \<and> b < b0
          \<and> (\<forall>j'<Suc j. b < enat (delta_minutes ((t # ts) ! j') (now (k + j'))))
          \<and> (\<forall>j'<length (t # ts). b \<le> enat (delta_minutes ((t # ts) ! j') (now (k + j'))))"
        using j rest by (simp add: All_less_Suc2 del: enat_ord_simps)
      then show ?thesis by blast
    qed
  next
    case False
    with Cons.prems have "minute_scan now (Suc k) ts (i0, b0) = (i, b)"
      by (simp add: d_def)
    from Cons.IH [OF this] show ?thesis
    proof (elim disjE conjE exE)
      assume "i = i0" "b = b0" "\<forall>j<length ts. b0 \<le> enat (delta_minutes (ts ! j) (now (Suc k + j)))"
      then have "i = i0 \<and> b = b0
         \<and> (\<forall>j<length (t # ts). b0 \<le> enat (delta_minutes ((t # ts) ! j) (now (k + j))))"
        using False by (simp add: d_def All_less_Suc2)
      then show ?thesis by blast
    next
      fix j
      assume j: "j < length ts" "i = Suc k + j"
        "b = enat (delta_minutes (ts ! j) (now (Suc k + j)))"
        and bb: "b < b0"
        and rest: "\<forall>j'<j. b < enat (delta_minutes (ts ! j') (now (Suc k + j')))"
        "\<forall>j'<length ts. b \<le> enat (delta_minutes (ts ! j') (now (Suc k + j')))"
      from False have "b0 \<le> d" by simp
      with bb have "b < d" by (rule less_le_trans)
      then have "b < enat (delta_minutes t (now k))" "b \<le> enat (delta_minutes t (now k))"
        by (simp_all add: d_def)
      then have "Suc j < length (t # ts) \<and> i = k + Suc j
          \<and> b = enat (delta_minutes ((t # ts) ! Suc j) (now (k + Suc j))) \<and> b < b0
          \<and> (\<forall>j'<Suc j. b < enat (delta_minutes ((t # ts) ! j') (now (k + j'))))
          \<and> (\<forall>j'<length (t # ts). b \<le> enat (delta_minutes ((t # ts) ! j') (now (k + j'))))"
        using j bb rest by (simp add: All_less_Suc2 del: enat_ord_simps)
      then show ?thesis by blast
    qed
  qed
qed

lemma minutes: "minute t0800 = 0" "minute t0815 = 15" "minute t0830 = 30"
  by (simp_all add: minute_def t0800_def t0815_def t0830_def)

text \<open>
  Claim C4. For every non-empty normalized sub-hourly series (every list of the
  dictionary as long as the list of times) the sub-hourly selection returns a result:
  the sample at the first index whose distance in minutes from the clock, the absolute
  difference of the two minute-of-hour components, is smallest. No sample is nearer, and
  every earlier sample is strictly farther, so of two samples at the same distance the
  earlier one is returned.
\<close>

theorem minutely_selection_nearest_first:
  assumes "time_m data \<noteq> []"
    and "length (temperature_m data) = length (time_m data)"
    and "length (precipitation_m data) = length (time_m data)"
    and "length (wind_speed_m data) = length (time_m data)"
    and "length (wind_direction_m data) = length (time_m data)"
    and "length (weather_m data) = length (time_m data)"
  shows "\<exists>i<length (time_m data).
           get_current_minute_data now data =
             Inr \<lparr>time_r = time_m data ! i,
                  temperature_r = temperature_m data ! i,
                  precipitation_r = precipitation_m data ! i,
                  wind_speed_r = wind_speed_m data ! i,
                  wind_direction_r = wind_direction_m data ! i,
                  weather_r = weather_m data ! i\<rparr>
         \<and> (\<forall>j<length (time_m data).
               \<bar>minute (time_m data ! i) - minute (now i)\<bar>
                 \<le> \<bar>minute (time_m data ! j) - minute (now j)\<bar>)
         \<and> (\<forall>j<i. \<bar>minute (time_m data ! i) - minute (now i)\<bar>
                 < \<bar>minute (time_m data ! j) - minute (now j)\<bar>)"
proof -
  define ts where "ts = time_m data"
  obtain i b where scan: "minute_scan now 0 ts (0, \<infinity>) = (i, b)"
    by (cases "minute_scan now 0 ts (0, \<infinity>)")
  have ne: "0 < length ts" using assms(1) by (simp add: ts_def)
  from minute_scan_result [OF scan]
  have "\<exists>j<length ts. i = 0 + j \<and> b = enat (delta_minutes (ts ! j) (now (0 + j))) \<and> b < \<infinity>
          \<and> (\<forall>j'<j. b < enat (delta_minutes (ts ! j') (now (0 + j'))))
          \<and> (\<forall>j'<length ts. b \<le> enat (delta_minutes (ts ! j') (now (0 + j'))))"
  proof
    assume "i = 0 \<and> b = \<infinity> \<and> (\<forall>j<length ts. \<infinity> \<le> enat (delta_minutes (ts ! j) (now (0 + j))))"
    then have "\<infinity> \<le> enat (delta_minutes (ts ! 0) (now (0 + 0)))" using ne by blast
    then show ?thesis by simp
  qed
  then have i: "i < length ts"
    and b: "b = enat (delta_minutes (ts ! i) (now i))"
    and first: "\<forall>j'<i. b < enat (delta_minutes (ts ! j') (now j'))"
    and least: "\<forall>j'<length ts. b \<le> enat (delta_minutes (ts ! j') (now j'))"
    by auto
  have idx: "fst (minute_scan now 0 (time_m data) (0, \<infinity>)) = i"
    using scan by (simp add: ts_def)
  have "get_current_minute_data now data =
          Inr \<lparr>time_r = time_m data ! i,
               temperature_r = temperature_m data ! i,
               precipitation_r = precipitation_m data ! i,
               wind_speed_r = wind_speed_m data ! i,
               wind_direction_r = wind_direction_m data ! i,
               weather_r = weather_m data ! i\<rparr>"
    unfolding get_current_minute_data_def Let_def idx
    using i assms(2-6) by (simp add: ts_def)
  moreover have "\<forall>j<length (time_m data).
      \<bar>minute (time_m data ! i) - minute (now i)\<bar> \<le> \<bar>minute (time_m data ! j) - minute (now j)\<bar>"
  proof (intro allI impI)
    fix j assume "j < length (time_m data)"
    with least have "delta_minutes (ts ! i) (now i) \<le> delta_minutes (ts ! j) (now j)"
      by (simp add: b ts_def)
    then show "\<bar>minute (time_m data ! i) - minute (now i)\<bar> \<le> \<bar>minute (time_m data ! j) - minute (now j)\<bar>"
      by (simp add: delta_minutes_def ts_def)
  qed
  moreover have "\<forall>j<i. \<bar>minute (time_m data ! i) - minute (now i)\<bar>
      < \<bar>minute (time_m data ! j) - minute (now j)\<bar>"
  proof (intro allI impI)
    fix j assume "j < i"
    with first have "delta_minutes (ts ! i) (now i) < delta_minutes (ts ! j) (now j)"
      by (simp add: b)
    then show "\<bar>minute (time_m data ! i) - minute (now i)\<bar> < \<bar>minute (time_m data ! j) - minute (now j)\<bar>"
      by (simp add: delta_minutes_def ts_def)
  qed
  ultimately show ?thesis using i unfolding ts_def by blast
qed

text \<open>
  At 08:15 the series 08:00, 08:15 gives its second sample, the nearer one, and the
  series 08:00, 08:30, whose samples are both 15 minutes away, gives its first sample.
\<close>

theorem minutely_selection_nearest_first_witness:
  "time_m quarter_past \<noteq> []
   \<and> length (temperature_m quarter_past) = length (time_m quarter_past)
   \<and> length (precipitation_m quarter_past) = length (time_m quarter_past)
   \<and> length (wind_speed_m quarter_past) = length (time_m quarter_past)
   \<and> length (wind_direction_m quarter_past) = length (time_m quarter_past)
   \<and> length (weather_m quarter_past) = length (time_m quarter_past)
   \<and> get_current_minute_data (\<lambda>k. t0815) quarter_past =
       Inr \<lparr>time_r = t0815, temperature_r = 6, precipitation_r = 1, wind_speed_r = 4,
            wind_direction_r = Yug, weather_r = Some ''Rain''\<rparr>
   \<and> time_m quarters \<noteq> []
   \<and> length (temperature_m quarters) = length (time_m quarters)
   \<and> length (precipitation_m quarters) = length (time_m quarters)
   \<and> length (wind_speed_m quarters) = length (time_m quarters)
   \<and> length (wind_direction_m quarters) = length (time_m quarters)
   \<and> length (weather_m quarters) = length (time_m quarters)
   \<and> get_current_minute_data (\<lambda>k. t0815) quarters =
       Inr \<lparr>time_r = t0800, temperature_r = 5, precipitation_r = 0, wind_speed_r = 3,
            wind_direction_r = Sever, weather_r = Some ''Clear sky''\<rparr>"
proof -
  have hyps_past: "time_m quarter_past \<noteq> []"
    "length (temperature_m quarter_past) = length (time_m quarter_past)"
    "length (precipitation_m quarter_past) = length (time_m quarter_past)"
    "length (wind_speed_m quarter_past) = length (time_m quarter_past)"
    "length (wind_direction_m quarter_past) = length (time_m quarter_past)"
    "length (weather_m quarter_past) = length (time_m quarter_past)"
    by (simp_all add: quarter_past_def)
  from minutely_selection_nearest_first [OF hyps_past, of "\<lambda>k. t0815"] obtain n where
    n: "n < length (time_m quarter_past)"
    and res_past: "get_current_minute_data (\<lambda>k. t0815) quarter_past =
             Inr \<lparr>time_r = time_m quarter_past ! n,
                  temperature_r = temperature_m quarter_past ! n,
                  precipitation_r = precipitation_m quarter_past ! n,
                  wind_speed_r = wind_speed_m quarter_past ! n,
                  wind_direction_r = wind_direction_m quarter_past ! n,
                  weather_r = weather_m quarter_past ! n\<rparr>"
    and least: "\<forall>j<length (time_m quarter_past).
        \<bar>minute (time_m quarter_past ! n) - minute t0815\<bar>
          \<le> \<bar>minute (time_m quarter_past ! j) - minute t0815\<bar>"
    by blast
  have "n = 1"
  proof (rule ccontr)
    assume "n \<noteq> 1"
    with n have "n = 0" by (simp add: quarter_past_def)
    moreover have "(1::nat) < length (time_m quarter_past)" by (simp add: quarter_past_def)
    ultimately have "\<bar>minute (time_m quarter_past ! 0) - minute t0815\<bar>
        \<le> \<bar>minute (time_m quarter_past ! 1) - minute t0815\<bar>"
      using least by blast
    then show False by (simp add: quarter_past_def minutes)
  qed
  with res_past have past: "get_current_minute_data (\<lambda>k. t0815) quarter_past =
       Inr \<lparr>time_r = t0815, temperature_r = 6, precipitation_r = 1, wind_speed_r = 4,
            wind_direction_r = Yug, weather_r = Some ''Rain''\<rparr>"
    by (simp add: quarter_past_def)
  have hyps: "time_m quarters \<noteq> []"
    "length (temperature_m quarters) = length (time_m quarters)"
    "length (precipitation_m quarters) = length (time_m quarters)"
    "length (wind_speed_m quarters) = length (time_m quarters)"
    "length (wind_direction_m quarters) = length (time_m quarters)"
    "length (weather_m quarters) = length (time_m quarters)"
    by (simp_all add: quarters_def)
  from minutely_selection_nearest_first [OF hyps, of "\<lambda>k. t0815"] obtain i where
    i: "i < length (time_m quarters)"
    and res: "get_current_minute_data (\<lambda>k. t0815) quarters =
             Inr \<lparr>time_r = time_m quarters ! i,
                  temperature_r = temperature_m quarters ! i,
                  precipitation_r = precipitation_m quarters ! i,
                  wind_speed_r = wind_speed_m quarters ! i,
                  wind_direction_r = wind_direction_m quarters ! i,
                  weather_r = weather_m quarters ! i\<rparr>"
    and first: "\<forall>j<i. \<bar>minute (time_m quarters ! i) - minute t0815\<bar>
        < \<bar>minute (time_m quarters ! j) - minute t0815\<bar>"
    by blast
  have "i = 0"
  proof (rule ccontr)
    assume "i \<noteq> 0"
    with i have "i = 1" by (simp add: quarters_def)
    with first have "\<bar>minute (time_m quarters ! 1) - minute t0815\<bar>
        < \<bar>minute (time_m quarters ! 0) - minute t0815\<bar>"
      by simp
    then show False by (simp add: quarters_def minutes)
  qed
  with res have "get_current_minute_data (\<lambda>k. t0815) quarters =
       Inr \<lparr>time_r = t0800, temperature_r = 5, precipitation_r = 0, wind_speed_r = 3,
            wind_direction_r = Sever, weather_r = Some ''Clear sky''\<rparr>"
    by (simp add: quarters_def)
  with hyps hyps_past past show ?thesis by simp
qed

section \<open>Properties of the store\<close>








lemma distinct_map_sort_key: "distinct (map f (sort_key f xs)) = distinct (map f xs)"
  by (induction xs) (simp_all add: distinct_insort_key)

lemma strict_sorted_sort_key:
  assumes "distinct (map f xs)"
  shows "sorted_wrt (\<lambda>a b. f a < f b) (sort_key f xs)"
proof -
  have "sorted (map f (sort_key f xs))" by (rule sorted_sort_key)
  moreover have "distinct (map f (sort_key f xs))"
    using assms by (simp add: distinct_map_sort_key)
  ultimately have "sorted_wrt (<) (map f (sort_key f xs))"
    by (simp add: strict_sorted_iff)
  then show ?thesis by (simp add: sorted_wrt_map)
qed

lemma sorted_wrt_take_drop:
  assumes "sorted_wrt P xs"
  shows "sorted_wrt P (take n xs) \<and> (\<forall>x \<in> set (take n xs). \<forall>y \<in> set (drop n xs). P x y)"
proof -
  have "sorted_wrt P (take n xs @ drop n xs)" using assms by simp
  then show ?thesis unfolding sorted_wrt_append by blast
qed

lemma limit_rows_props:
  assumes "sorted_wrt P xs"
  shows "sorted_wrt P (limit_rows limit xs)"
    and "set (limit_rows limit xs) \<subseteq> set xs"
    and "length (limit_rows limit xs) = (case limit of None \<Rightarrow> length xs | Some n \<Rightarrow> min n (length xs))"
    and "\<forall>x \<in> set (limit_rows limit xs). \<forall>y \<in> set xs - set (limit_rows limit xs). P x y"
proof -
  show "sorted_wrt P (limit_rows limit xs)"
    using assms sorted_wrt_take_drop [OF assms] by (cases limit) (simp_all add: limit_rows_def)
  show "set (limit_rows limit xs) \<subseteq> set xs"
    by (cases limit) (auto simp: limit_rows_def dest: in_set_takeD)
  show "length (limit_rows limit xs) = (case limit of None \<Rightarrow> length xs | Some n \<Rightarrow> min n (length xs))"
    by (cases limit) (simp_all add: limit_rows_def min.commute)
  show "\<forall>x \<in> set (limit_rows limit xs). \<forall>y \<in> set xs - set (limit_rows limit xs). P x y"
  proof (cases limit)
    case None
    then show ?thesis by (simp add: limit_rows_def)
  next
    case (Some n)
    have "set xs = set (take n xs) \<union> set (drop n xs)"
      by (metis append_take_drop_id set_append)
    then have "set xs - set (take n xs) \<subseteq> set (drop n xs)" by blast
    with sorted_wrt_take_drop [OF assms, of n] show ?thesis
      unfolding Some limit_rows_def by auto
  qed
qed

lemma rounding_5_4: "rounding_column (27 / 5) = Inr 5" "rounding_column 5 = Inr 5"
  "rounding_column 0 = Inr 0"
  by (simp_all add: rounding_column_def round_def)

lemma row_ids: "rec_id row1 = 1" "rec_id row2 = 2" "rec_id row3 = 3"
  by (simp_all add: row1_def row2_def row3_def)





text \<open>
  Claim C9. For every table (identities are distinct, \<open>id\<close> being the primary key) and
  every \<open>n\<close>, \<open>get_all\<close> with \<open>order_by="id desc"\<close> and \<open>limit=n\<close> returns \<open>min n (size)\<close> rows
  of the table in strictly descending order of identity, and every row left out has a
  smaller identity than every row returned (identities grow with creation, see
  \<open>next_id_fresh\<close>, so these are the \<open>n\<close> most recently created). With no \<open>order_by\<close> the
  rows come in strictly ascending order of identity.
\<close>

theorem get_all_ordering:
  assumes "distinct (map rec_id table)"
  shows "(\<exists>rows. get_all table (Some ''id desc'') (Some n) = Inr rows
            \<and> length rows = min n (length table)
            \<and> set rows \<subseteq> set table
            \<and> sorted_wrt (\<lambda>a b. rec_id a > rec_id b) rows
            \<and> (\<forall>r \<in> set rows. \<forall>old \<in> set table - set rows. rec_id old < rec_id r))
       \<and> (\<exists>rows. get_all table None limit = Inr rows
            \<and> length rows = (case limit of None \<Rightarrow> length table | Some k \<Rightarrow> min k (length table))
            \<and> set rows \<subseteq> set table
            \<and> sorted_wrt (\<lambda>a b. rec_id a < rec_id b) rows)"
proof -
  have asc: "sorted_wrt (\<lambda>a b. rec_id a < rec_id b) (sort_key rec_id table)"
    using assms by (rule strict_sorted_sort_key)
  then have desc: "sorted_wrt (\<lambda>a b. rec_id b < rec_id a) (rev (sort_key rec_id table))"
    by (simp add: sorted_wrt_rev)
  have d: "get_all table (Some ''id desc'') (Some n) =
      Inr (limit_rows (Some n) (rev (sort_key rec_id table)))"
    by (simp add: get_all_def)
  have a: "get_all table None limit = Inr (limit_rows limit (sort_key rec_id table))"
    by (simp add: get_all_def)
  have "length (limit_rows (Some n) (rev (sort_key rec_id table))) = min n (length table)"
    using limit_rows_props(3) [OF desc, of "Some n"] by simp
  moreover have "set (limit_rows (Some n) (rev (sort_key rec_id table))) \<subseteq> set table"
    using limit_rows_props(2) [OF desc, of "Some n"] by simp
  moreover have "sorted_wrt (\<lambda>a b. rec_id b < rec_id a) (limit_rows (Some n) (rev (sort_key rec_id table)))"
    by (rule limit_rows_props(1) [OF desc])
  moreover have "\<forall>r \<in> set (limit_rows (Some n) (rev (sort_key rec_id table))).
      \<forall>old \<in> set table - set (limit_rows (Some n) (rev (sort_key rec_id table))). rec_id old < rec_id r"
    using limit_rows_props(4) [OF desc, of "Some n"] by simp
  moreover have "length (limit_rows limit (sort_key rec_id table)) =
      (case limit of None \<Rightarrow> length table | Some k \<Rightarrow> min k (length table))"
    using limit_rows_props(3) [OF asc, of limit] by (cases limit) simp_all
  moreover have "set (limit_rows limit (sort_key rec_id table)) \<subseteq> set table"
    using limit_rows_props(2) [OF asc, of limit] by simp
  moreover have "sorted_wrt (\<lambda>a b. rec_id a < rec_id b) (limit_rows limit (sort_key rec_id table))"
    by (rule limit_rows_props(1) [OF asc])
  ultimately show ?thesis unfolding d a by blast
qed

theorem get_all_ordering_witness:
  "distinct (map rec_id [row2, row3, row1])
   \<and> get_all [row2, row3, row1] (Some ''id desc'') (Some 2) = Inr [row3, row2]
   \<and> get_all [row2, row3, row1] None None = Inr [row1, row2, row3]
   \<and> sorted_wrt (\<lambda>a b. rec_id a > rec_id b) [row3, row2]"
proof -
  have d: "distinct (map rec_id [row2, row3, row1])" by (simp add: row_ids)
  have desc: "get_all [row2, row3, row1] (Some ''id desc'') (Some 2) = Inr [row3, row2]"
    by (simp add: get_all_def limit_rows_def row_ids)
  have asc: "get_all [row2, row3, row1] None None = Inr [row1, row2, row3]"
    by (simp add: get_all_def limit_rows_def row_ids)
  from get_all_ordering [OF d, of 2 None] show ?thesis
    using d by (simp add: desc asc)
qed

section \<open>Properties of the polling loop\<close>

lemma pressure_1013: "serialize_surface_pressure [1013] = [759]"
  by (simp add: serialize_surface_pressure_def floordiv_def divisor_1_333_def floor_eq_iff)

lemma hourly_dump_0800:
  "weather_hourly_validation_service sample_iso (Accepted hourly_0800) = Inr \<lparr>time_h = [t0800], pressure_h = [759]\<rparr>"
  by (simp add: weather_hourly_validation_service_def hourly_0800_def sample_iso_def pressure_1013)

lemma hourly_dump_0700:
  "weather_hourly_validation_service sample_iso (Accepted hourly_0700) = Inr \<lparr>time_h = [t0700], pressure_h = [759]\<rparr>"
  by (simp add: weather_hourly_validation_service_def hourly_0700_def sample_iso_def pressure_1013)

lemma minutely_dump_0815:
  "weather_minutely_validation_service sample_iso sample_codes (Accepted minutely_0815) =
     Inr \<lparr>time_m = [t0815], temperature_m = [5], precipitation_m = [0], wind_speed_m = [3],
          wind_direction_m = [Sever], weather_m = [Some ''Clear sky'']\<rparr>"
  by (simp add: weather_minutely_validation_service_def minutely_0815_def sample_iso_def sample_codes_def
      serialize_weather_code_def)

lemma minutely_select_0815:
  "get_current_minute_data clock_0815
     \<lparr>time_m = [t0815], temperature_m = [5], precipitation_m = [0], wind_speed_m = [3],
      wind_direction_m = [Sever], weather_m = [Some ''Clear sky'']\<rparr> = Inr sample_0815"
  by (simp add: get_current_minute_data_def sample_0815_def clock_0815_def delta_minutes_def)

lemma hourly_select_0800:
  "get_current_hour_data clock_0815 \<lparr>time_h = [t0800], pressure_h = [759]\<rparr> = Some \<lparr>pressure_hr = 759\<rparr>"
  by (simp add: get_current_hour_data_def clock_0815_def hours)

lemma hourly_select_0700:
  "get_current_hour_data clock_0815 \<lparr>time_h = [t0700], pressure_h = [759]\<rparr> = None"
  by (simp add: get_current_hour_data_def clock_0815_def hours)

lemma create_row_0815:
  "weather_record_create_service rounding_column [] merged_0815 (Inr t0830) = Inr [row_0815]"
  by (simp add: weather_record_create_service_def weather_record_create_validation_service_def
      create_def next_id_def merged_0815_def row_0815_def rounding_5_4)

lemma iteration_good: "iteration sample_iso sample_codes [] good_poll = Inr [row_0815]"
  by (simp add: iteration_def good_poll_def response_0800_def hourly_dump_0800 hourly_select_0800
      minutely_dump_0815 minutely_select_0815 merge_def sample_0815_def
      merged_0815_def [symmetric] create_row_0815)

lemma iteration_failed_fetch: "iteration sample_iso sample_codes table failed_fetch = Inl ClientError"
  by (simp add: iteration_def failed_fetch_def)

lemma iteration_no_hour: "iteration sample_iso sample_codes table no_hour_poll = Inl TypeError"
  by (simp add: iteration_def no_hour_poll_def response_0700_def hourly_dump_0700 hourly_select_0700
      minutely_dump_0815 minutely_select_0815 merge_def)

text \<open>
  Claim C1, as stated, has every error of a pass caught at the end of the pass and the
  loop going on to sleep and to the next pass. When the request of the first pass fails,
  the loop ends there with the error: no sleep is done and the second pass, which would
  have stored a row, never runs.
\<close>

theorem polling_error_ends_loop_counterexample:
  "polling_loop sample_iso sample_codes [] [failed_fetch, good_poll] = ([], 0, Raised ClientError)
   \<and> polling_loop sample_iso sample_codes [] [good_poll] = ([row_0815], 1, Running)"
  by (simp add: iteration_failed_fetch iteration_good)

text \<open>
  Claim C1, amended. An error raised inside a pass of the polling loop (fetching,
  validating, selecting, merging or persisting) is not caught in the loop: the loop ends
  at that pass with the error, without the sleep of that pass and without any later
  pass, so nothing is retried; the rows stored and the sleeps done by the earlier passes
  stay as they were.
\<close>

theorem polling_error_ends_loop:
  assumes "polling_loop f m table pre = (table', n, Running)"
    and "iteration f m table' inp = Inl e"
  shows "polling_loop f m table (pre @ inp # rest) = (table', n, Raised e)"
  using assms
proof (induction pre arbitrary: table n)
  case Nil
  then show ?case by simp
next
  case (Cons p ps)
  show ?case
  proof (cases "iteration f m table p")
    case (Inl e')
    with Cons.prems(1) show ?thesis by simp
  next
    case (Inr t1)
    obtain t k st where rest_run: "polling_loop f m t1 ps = (t, k, st)"
      by (cases "polling_loop f m t1 ps")
    with Cons.prems(1) Inr have eqs: "t = table'" "n = Suc k" "st = Running"
      by simp_all
    from rest_run eqs have "polling_loop f m t1 ps = (table', k, Running)" by simp
    from Cons.IH [OF this Cons.prems(2)]
    have "polling_loop f m t1 (ps @ inp # rest) = (table', k, Raised e)" .
    with Inr eqs show ?thesis by simp
  qed
qed

theorem polling_error_ends_loop_witness:
  "polling_loop sample_iso sample_codes [] [good_poll] = ([row_0815], 1, Running)
   \<and> iteration sample_iso sample_codes [row_0815] failed_fetch = Inl ClientError
   \<and> polling_loop sample_iso sample_codes [] [good_poll, failed_fetch, good_poll]
       = ([row_0815], 1, Raised ClientError)"
proof -
  have pre: "polling_loop sample_iso sample_codes [] [good_poll] = ([row_0815], 1, Running)"
    by (simp add: iteration_good)
  have bad: "iteration sample_iso sample_codes [row_0815] failed_fetch = Inl ClientError"
    by (rule iteration_failed_fetch)
  from polling_error_ends_loop [OF pre bad, of "[good_poll]"] show ?thesis
    using pre bad by simp
qed

lemma iteration_without_hour:
  assumes "fetched inp = Inr resp" "hourly resp = Some kw"
    and "weather_hourly_validation_service f kw = Inr data"
    and "get_current_hour_data (hour_now inp) data = None"
  shows "\<exists>e. iteration f m table inp = Inl e"
  using assms
  by (auto simp: iteration_def merge_def split: option.splits sum.splits)

text \<open>
  Claim C2, as stated, has the hourly selection signal a NoMatchError that the caller
  handles as a failure of one pass. With a series that holds 07:00 only and a clock at
  08:15 the selection raises nothing and returns \<open>None\<close>; the pass then raises TypeError
  at the union of the two samples, which ends the loop.
\<close>

theorem no_hour_match_counterexample:
  "get_current_hour_data clock_0815 \<lparr>time_h = [t0700], pressure_h = [759]\<rparr> = None
   \<and> iteration sample_iso sample_codes [] no_hour_poll = Inl TypeError
   \<and> polling_loop sample_iso sample_codes [] [no_hour_poll, good_poll] = ([], 0, Raised TypeError)"
  by (simp add: hourly_select_0700 iteration_no_hour)

text \<open>
  Claim C2, amended. For every normalized hourly series in which no sample's hour of
  day equals the hour of the clock, the hourly selection raises nothing and returns no
  sample (\<open>None\<close>); the pass that made the selection ends with an error before anything is
  persisted, and this error is not recovered: it ends the polling loop.
\<close>

theorem no_hour_match_returns_none:
  assumes "fetched inp = Inr resp" "hourly resp = Some kw"
    and "weather_hourly_validation_service f kw = Inr data"
    and "\<forall>k<length (zip (time_h data) (pressure_h data)).
           hour (time_h data ! k) \<noteq> hour (hour_now inp k)"
  shows "get_current_hour_data (hour_now inp) data = None
       \<and> (\<exists>e. iteration f m table inp = Inl e
              \<and> polling_loop f m table (inp # inps) = (table, 0, Raised e))"
proof -
  have "\<forall>j<length (zip (time_h data) (pressure_h data)).
      hour (fst (zip (time_h data) (pressure_h data) ! j)) \<noteq> hour (hour_now inp (0 + j))"
    using assms(4) by simp
  then have "hour_scan (hour_now inp) 0 (zip (time_h data) (pressure_h data)) = None"
    by (rule hour_scan_none)
  then have none: "get_current_hour_data (hour_now inp) data = None"
    by (simp add: get_current_hour_data_def)
  from iteration_without_hour [OF assms(1-3) none]
  obtain e where "iteration f m table inp = Inl e" by blast
  then have "iteration f m table inp = Inl e
      \<and> polling_loop f m table (inp # inps) = (table, 0, Raised e)"
    by simp
  with none show ?thesis by blast
qed

theorem no_hour_match_returns_none_witness:
  "fetched no_hour_poll = Inr response_0700
   \<and> hourly response_0700 = Some (Accepted hourly_0700)
   \<and> weather_hourly_validation_service sample_iso (Accepted hourly_0700)
       = Inr \<lparr>time_h = [t0700], pressure_h = [759]\<rparr>
   \<and> hour t0700 \<noteq> hour (hour_now no_hour_poll 0)
   \<and> get_current_hour_data (hour_now no_hour_poll) \<lparr>time_h = [t0700], pressure_h = [759]\<rparr> = None
   \<and> polling_loop sample_iso sample_codes [] [no_hour_poll, good_poll] = ([], 0, Raised TypeError)"
proof -
  have f: "fetched no_hour_poll = Inr response_0700" by (simp add: no_hour_poll_def)
  have h: "hourly response_0700 = Some (Accepted hourly_0700)" by (simp add: response_0700_def)
  have ne: "hour t0700 \<noteq> hour (hour_now no_hour_poll 0)"
    by (simp add: no_hour_poll_def clock_0815_def hours)
  then have nomatch: "\<forall>k<length (zip (time_h \<lparr>time_h = [t0700], pressure_h = [759]\<rparr>)
                                 (pressure_h \<lparr>time_h = [t0700], pressure_h = [759::real]\<rparr>)).
      hour (time_h \<lparr>time_h = [t0700], pressure_h = [759::real]\<rparr> ! k) \<noteq> hour (hour_now no_hour_poll k)"
    by simp
  from no_hour_match_returns_none [OF f h hourly_dump_0700 nomatch, of sample_codes "[]" "[good_poll]"]
  have "get_current_hour_data (hour_now no_hour_poll) \<lparr>time_h = [t0700], pressure_h = [759]\<rparr> = None"
    and "\<exists>e. iteration sample_iso sample_codes [] no_hour_poll = Inl e
           \<and> polling_loop sample_iso sample_codes [] [no_hour_poll, good_poll] = ([], 0, Raised e)"
    by simp_all
  then show ?thesis using f h hourly_dump_0700 ne by (auto simp: iteration_no_hour)
qed

section \<open>Properties of the export loop\<close>

lemma validate_rows_length: "validate_rows data = Inr ds \<Longrightarrow> length ds = length data"
proof (induction data arbitrary: ds)
  case Nil
  then show ?case by simp
next
  case (Cons i data)
  then show ?case by (auto split: sum.splits)
qed

lemma get_all_limit_length:
  "get_all table order_by (Some n) = Inr rows \<Longrightarrow> length rows \<le> n"
  by (auto simp: get_all_def limit_rows_def Let_def split: if_splits)

lemma service_limit_length:
  assumes "weather_record_get_all_service table order_by (Some n) = Inr ds"
  shows "length ds \<le> n"
proof -
  from assms obtain rows where rows: "get_all table order_by (Some n) = Inr rows"
    and ds: "validate_rows rows = Inr ds"
    by (auto simp: weather_record_get_all_service_def split: sum.splits)
  from ds have "length ds = length rows" by (rule validate_rows_length)
  with get_all_limit_length [OF rows] show ?thesis by simp
qed


lemma export_loop_events:
  "\<forall>ev \<in> set (fst (export_loop strip lower inps)).
     (case ev of
        Requested order_by limit \<Rightarrow> order_by = Some ''id desc'' \<and> limit = Some 10
      | To_excel weather_records \<Rightarrow> length weather_records \<le> 10)"
proof (induction inps)
  case Nil
  then show ?case by simp
next
  case (Cons inp inps)
  show ?case
  proof (cases "affirmative strip lower (line inp)")
    case False
    with Cons.IH show ?thesis by simp
  next
    case True
    show ?thesis
    proof (cases "seen inp")
      case (Inl e)
      with True show ?thesis by simp
    next
      case (Inr table)
      show ?thesis
      proof (cases "weather_record_get_all_service table (Some ''id desc'') (Some 10)")
        case (Inl e)
        with True \<open>seen inp = Inr table\<close> show ?thesis by simp
      next
        case (Inr weather_records)
        then have "length weather_records \<le> 10" by (rule service_limit_length)
        with True \<open>seen inp = Inr table\<close> Inr Cons.IH show ?thesis
          by (cases "export_loop strip lower inps") simp
      qed
    qed
  qed
qed

lemma export_loop_affirmative_head:
  assumes "affirmative strip lower (line inp)"
  shows "\<exists>events. fst (export_loop strip lower (inp # inps))
           = Requested (Some ''id desc'') (Some 10) # events"
proof (cases "seen inp")
  case (Inl e)
  with assms show ?thesis by simp
next
  case (Inr table)
  show ?thesis
  proof (cases "weather_record_get_all_service table (Some ''id desc'') (Some 10)")
    case (Inl e)
    with assms \<open>seen inp = Inr table\<close> show ?thesis by simp
  next
    case (Inr weather_records)
    with assms \<open>seen inp = Inr table\<close> show ?thesis
      by (cases "export_loop strip lower inps") simp
  qed
qed

lemma export_loop_affirmative_rows:
  assumes "affirmative strip lower (line inp)" "seen inp = Inr table"
    and "weather_record_get_all_service table (Some ''id desc'') (Some 10) = Inr weather_records"
  shows "\<exists>events. fst (export_loop strip lower (inp # inps))
           = Requested (Some ''id desc'') (Some 10) # To_excel weather_records # events"
proof -
  obtain events state where "export_loop strip lower inps = (events, state)"
    by (cases "export_loop strip lower inps")
  with assms show ?thesis by simp
qed

lemma export_loop_append:
  assumes "export_loop strip lower pre = (evs, Running)"
  shows "export_loop strip lower (pre @ inps)
           = (evs @ fst (export_loop strip lower inps), snd (export_loop strip lower inps))"
  using assms
proof (induction pre arbitrary: evs)
  case Nil
  then show ?case by simp
next
  case (Cons p ps)
  show ?case
  proof (cases "affirmative strip lower (line p)")
    case False
    with Cons.prems have "export_loop strip lower ps = (evs, Running)" by simp
    from Cons.IH [OF this] False show ?thesis by simp
  next
    case True
    show ?thesis
    proof (cases "seen p")
      case (Inl e)
      with True Cons.prems show ?thesis by simp
    next
      case (Inr table)
      show ?thesis
      proof (cases "weather_record_get_all_service table (Some ''id desc'') (Some 10)")
        case (Inl e)
        with True \<open>seen p = Inr table\<close> Cons.prems show ?thesis by simp
      next
        case (Inr weather_records)
        obtain es st where run: "export_loop strip lower ps = (es, st)"
          by (cases "export_loop strip lower ps")
        with True \<open>seen p = Inr table\<close> Inr Cons.prems
        have evs: "evs = Requested (Some ''id desc'') (Some 10) # To_excel weather_records # es"
          and st: "st = Running"
          by simp_all
        from run st have "export_loop strip lower ps = (es, Running)" by simp
        from Cons.IH [OF this] True \<open>seen p = Inr table\<close> Inr evs show ?thesis by simp
      qed
    qed
  qed
qed

lemma export_loop_running_length:
  "snd (export_loop strip lower inps) = Running \<Longrightarrow>
     length (fst (export_loop strip lower inps))
       = 2 * length (filter (\<lambda>inp. affirmative strip lower (line inp)) inps)"
proof (induction inps)
  case Nil
  then show ?case by simp
next
  case (Cons inp inps)
  show ?case
  proof (cases "affirmative strip lower (line inp)")
    case False
    with Cons show ?thesis by simp
  next
    case True
    show ?thesis
    proof (cases "seen inp")
      case (Inl e)
      with True Cons.prems show ?thesis by simp
    next
      case (Inr table)
      show ?thesis
      proof (cases "weather_record_get_all_service table (Some ''id desc'') (Some 10)")
        case (Inl e)
        with True \<open>seen inp = Inr table\<close> Cons.prems show ?thesis by simp
      next
        case (Inr weather_records)
        obtain es st where run: "export_loop strip lower inps = (es, st)"
          by (cases "export_loop strip lower inps")
        with True \<open>seen inp = Inr table\<close> Inr Cons.prems have "st = Running" by simp
        with run Cons.IH have "length es
            = 2 * length (filter (\<lambda>inp. affirmative strip lower (line inp)) inps)"
          by simp
        with True \<open>seen inp = Inr table\<close> Inr run show ?thesis by simp
      qed
    qed
  qed
qed

lemma service_row_0815:
  "weather_record_get_all_service [row_0815] (Some ''id desc'') (Some 10) = Inr [out_row_0815]"
  by (simp add: weather_record_get_all_service_def get_all_def limit_rows_def
      weather_out_validation_service_def serialize_created_at_def row_0815_def out_row_0815_def
      t0830_def)

lemma service_rows_321:
  "weather_record_get_all_service [row1, row2, row3] (Some ''id desc'') (Some 10) = Inr out_rows_321"
proof -
  have "get_all [row1, row2, row3] (Some ''id desc'') (Some 10) = Inr [row3, row2, row1]"
    by (simp add: get_all_def limit_rows_def row_ids)
  moreover have "validate_rows [row3, row2, row1] = Inr out_rows_321"
    by (simp add: weather_out_validation_service_def serialize_created_at_def row1_def row2_def
        row3_def out_rows_321_def t0800_def t0815_def t0830_def)
  ultimately show ?thesis by (simp add: weather_record_get_all_service_def)
qed

lemma yes_affirmative: "affirmative id id (line yes_line)" "affirmative id id (line yes_later)"
  by (simp_all add: affirmative_def yes_line_def yes_later_def)

lemma no_not_affirmative: "\<not> affirmative id id (line no_line)"
  by (simp add: affirmative_def no_line_def da_def d_cyr_def)

text \<open>
  Claim C10. Whatever the lines read, every call that the export loop makes to the
  service asks for \<open>order_by="id desc"\<close> and \<open>limit=10\<close>, and every data frame handed to the
  executor has at most 10 rows. Whenever a line is affirmative, after any number of
  earlier passes that left the loop running, the loop makes such a call next; when
  the call succeeds, its rows are what is handed over next (by C9 they are the 10 rows
  of highest identity, or all rows of a smaller table). A loop that is still running
  has made one call and one export per affirmative line and none for any other line.
  \<open>str.strip\<close> and \<open>str.lower\<close> are any functions.
\<close>

theorem export_requests_ten_most_recent:
  "(\<forall>ev \<in> set (fst (export_loop strip lower inps)).
      (case ev of
         Requested order_by limit \<Rightarrow> order_by = Some ''id desc'' \<and> limit = Some 10
       | To_excel weather_records \<Rightarrow> length weather_records \<le> 10))
   \<and> (export_loop strip lower pre = (evs, Running) \<and> affirmative strip lower (line inp) \<longrightarrow>
        (\<exists>events. fst (export_loop strip lower (pre @ inp # rest))
           = evs @ Requested (Some ''id desc'') (Some 10) # events))
   \<and> (export_loop strip lower pre = (evs, Running) \<and> affirmative strip lower (line inp)
        \<and> seen inp = Inr table
        \<and> weather_record_get_all_service table (Some ''id desc'') (Some 10) = Inr weather_records \<longrightarrow>
        (\<exists>events. fst (export_loop strip lower (pre @ inp # rest))
           = evs @ Requested (Some ''id desc'') (Some 10) # To_excel weather_records # events))
   \<and> (snd (export_loop strip lower inps) = Running \<longrightarrow>
        length (fst (export_loop strip lower inps))
          = 2 * length (filter (\<lambda>inp. affirmative strip lower (line inp)) inps))"
proof (intro conjI impI)
  show "\<forall>ev \<in> set (fst (export_loop strip lower inps)).
      (case ev of
         Requested order_by limit \<Rightarrow> order_by = Some ''id desc'' \<and> limit = Some 10
       | To_excel weather_records \<Rightarrow> length weather_records \<le> 10)"
    by (rule export_loop_events)
next
  assume "export_loop strip lower pre = (evs, Running) \<and> affirmative strip lower (line inp)"
  then have pre: "export_loop strip lower pre = (evs, Running)"
    and yes: "affirmative strip lower (line inp)"
    by simp_all
  from export_loop_affirmative_head [OF yes, of rest] obtain events where
    "fst (export_loop strip lower (inp # rest)) = Requested (Some ''id desc'') (Some 10) # events"
    by blast
  with export_loop_append [OF pre, of "inp # rest"]
  show "\<exists>events. fst (export_loop strip lower (pre @ inp # rest))
           = evs @ Requested (Some ''id desc'') (Some 10) # events"
    by simp
next
  assume "export_loop strip lower pre = (evs, Running) \<and> affirmative strip lower (line inp)
        \<and> seen inp = Inr table
        \<and> weather_record_get_all_service table (Some ''id desc'') (Some 10) = Inr weather_records"
  then have pre: "export_loop strip lower pre = (evs, Running)"
    and yes: "affirmative strip lower (line inp)" "seen inp = Inr table"
    "weather_record_get_all_service table (Some ''id desc'') (Some 10) = Inr weather_records"
    by simp_all
  from export_loop_affirmative_rows [OF yes, of rest] obtain events where
    "fst (export_loop strip lower (inp # rest))
       = Requested (Some ''id desc'') (Some 10) # To_excel weather_records # events"
    by blast
  with export_loop_append [OF pre, of "inp # rest"]
  show "\<exists>events. fst (export_loop strip lower (pre @ inp # rest))
           = evs @ Requested (Some ''id desc'') (Some 10) # To_excel weather_records # events"
    by simp
next
  assume "snd (export_loop strip lower inps) = Running"
  then show "length (fst (export_loop strip lower inps))
      = 2 * length (filter (\<lambda>inp. affirmative strip lower (line inp)) inps)"
    by (rule export_loop_running_length)
qed

text \<open>
  Three lines, yes, no and yes: the second affirmative line, read when the table holds
  three rows, is served as the first one was.
\<close>

theorem export_requests_ten_most_recent_witness:
  "export_loop id id [yes_line, no_line] =
       ([Requested (Some ''id desc'') (Some 10), To_excel [out_row_0815]], Running)
   \<and> affirmative id id (line yes_later) \<and> seen yes_later = Inr [row1, row2, row3]
   \<and> weather_record_get_all_service [row1, row2, row3] (Some ''id desc'') (Some 10)
       = Inr out_rows_321
   \<and> export_loop id id [yes_line, no_line, yes_later] =
       ([Requested (Some ''id desc'') (Some 10), To_excel [out_row_0815],
         Requested (Some ''id desc'') (Some 10), To_excel out_rows_321], Running)"
proof -
  have s: "seen yes_line = Inr [row_0815]" "seen yes_later = Inr [row1, row2, row3]"
    by (simp_all add: yes_line_def yes_later_def)
  have pre: "export_loop id id [yes_line, no_line] =
       ([Requested (Some ''id desc'') (Some 10), To_excel [out_row_0815]], Running)"
    using yes_affirmative no_not_affirmative by (simp add: s service_row_0815)
  from export_requests_ten_most_recent [of id id "[]"
      "[yes_line, no_line]" "[Requested (Some ''id desc'') (Some 10), To_excel [out_row_0815]]"
      yes_later "[]" "[row1, row2, row3]" out_rows_321]
  have "\<exists>events. fst (export_loop id id ([yes_line, no_line] @ [yes_later]))
           = [Requested (Some ''id desc'') (Some 10), To_excel [out_row_0815]]
             @ Requested (Some ''id desc'') (Some 10) # To_excel out_rows_321 # events"
    using pre yes_affirmative s service_rows_321 by blast
  moreover have "export_loop id id [yes_line, no_line, yes_later] =
       ([Requested (Some ''id desc'') (Some 10), To_excel [out_row_0815],
         Requested (Some ''id desc'') (Some 10), To_excel out_rows_321], Running)"
    using yes_affirmative no_not_affirmative by (simp add: s service_row_0815 service_rows_321)
  ultimately show ?thesis using pre yes_affirmative s service_rows_321 by simp
qed

end
